theory Spec2Isabelle
  imports Main
begin

section \<open>Python values used by \<open>flopy.mf6\<close>\<close>

text \<open>
  Strings are byte strings (\<open>char list\<close>); the model covers ASCII text. Paths follow the
  POSIX flavour of \<open>os.path\<close> and \<open>pathlib\<close> (separator \<open>/\<close>, no drive).
  A Python exception is a value of \<open>py_error\<close>; a function that can raise returns
  \<open>py_error + 'a\<close> with \<open>Inl\<close> for the exception.
\<close>

datatype py_error =
    KeyError
  | TypeError
  | IndexError
  | ValueError
  | AttributeError string
  | OSError
  | MFDataException string

subsection \<open>Dictionaries\<close>

text \<open>
  A \<open>dict\<close> keeps insertion order: an association list with distinct keys. Assigning to
  a present key replaces its value in place, assigning to an absent key appends.
\<close>

type_synonym ('k, 'v) dict = "('k \<times> 'v) list"

definition dict_in :: "'k \<Rightarrow> ('k, 'v) dict \<Rightarrow> bool" where
  "dict_in k d = (k \<in> set (map fst d))"

definition dict_get :: "('k, 'v) dict \<Rightarrow> 'k \<Rightarrow> 'v option" where
  "dict_get d k = map_of d k"

fun dict_set :: "'k \<Rightarrow> 'v \<Rightarrow> ('k, 'v) dict \<Rightarrow> ('k, 'v) dict" where
  "dict_set k v [] = [(k, v)]"
| "dict_set k v (e # d) = (if fst e = k then (k, v) # d else e # dict_set k v d)"

definition dict_del :: "'k \<Rightarrow> ('k, 'v) dict \<Rightarrow> ('k, 'v) dict" where
  "dict_del k d = filter (\<lambda>e. fst e \<noteq> k) d"

subsection \<open>Strings\<close>

text \<open>\<open>s.split(sep)\<close> for a one-character separator: never the empty list.\<close>

fun split_on :: "char \<Rightarrow> string \<Rightarrow> string list" where
  "split_on sep [] = [[]]"
| "split_on sep (c # cs) =
     (if c = sep then [] # split_on sep cs
      else (case split_on sep cs of
              [] \<Rightarrow> [[c]]
            | w # ws \<Rightarrow> (c # w) # ws))"

subsection \<open>\<open>os.path\<close> (posixpath)\<close>

definition isabs :: "string \<Rightarrow> bool" where
  "isabs s = (case s of [] \<Rightarrow> False | c # _ \<Rightarrow> c = CHR ''/'')"

text \<open>
  \<open>os.path.join(a, b)\<close>: an absolute \<open>b\<close> replaces \<open>a\<close>; otherwise \<open>b\<close> is appended,
  after a separator unless \<open>a\<close> is empty or already ends with one. The first argument
  may be \<open>None\<close> (the snapshot root before any snapshot): \<open>os.fspath(None)\<close> raises
  \<open>TypeError\<close>.
\<close>

definition join :: "string \<Rightarrow> string \<Rightarrow> string" where
  "join a b =
     (if isabs b then b
      else if a = [] \<or> last a = CHR ''/'' then a @ b
      else a @ ''/'' @ b)"

definition os_path_join :: "string option \<Rightarrow> string \<Rightarrow> py_error + string" where
  "os_path_join a b = (case a of None \<Rightarrow> Inl TypeError | Some r \<Rightarrow> Inr (join r b))"

subsection \<open>\<open>pathlib\<close> (PurePosixPath)\<close>

text \<open>
  A pure POSIX path: its root (empty, \<open>/\<close>, or \<open>//\<close> for exactly two leading slashes) and
  its segments, the \<open>/\<close>-separated pieces without the empty ones and without \<open>.\<close>.
\<close>

record pure_path =
  root :: string
  segments :: "string list"

definition Path :: "string \<Rightarrow> pure_path" where
  "Path s =
     (let leading = length (takeWhile (\<lambda>c. c = CHR ''/'') s)
      in \<lparr> root = (if leading = 0 then [] else if leading = 2 then ''//'' else ''/''),
           segments = filter (\<lambda>w. w \<noteq> [] \<and> w \<noteq> ''.'') (split_on CHR ''/'' s) \<rparr>)"

fun sep_join :: "string list \<Rightarrow> string" where
  "sep_join [] = []"
| "sep_join [w] = w"
| "sep_join (w # ws) = w @ ''/'' @ sep_join ws"

text \<open>\<open>str(path)\<close>; on POSIX \<open>as_posix()\<close> is the same string.\<close>

definition path_str :: "pure_path \<Rightarrow> string" where
  "path_str p =
     (if root p = [] \<and> segments p = [] then ''.'' else root p @ sep_join (segments p))"

definition as_posix :: "pure_path \<Rightarrow> string" where
  "as_posix p = path_str p"

definition is_absolute :: "pure_path \<Rightarrow> bool" where
  "is_absolute p = (root p \<noteq> [])"

text \<open>
  \<open>p.is_relative_to(other)\<close>: the same root, and the segments of \<open>other\<close> lead the
  segments of \<open>p\<close>.
\<close>

definition is_relative_to :: "pure_path \<Rightarrow> pure_path \<Rightarrow> bool" where
  "is_relative_to p other =
     (root p = root other \<and>
      take (length (segments other)) (segments p) = segments other)"

text \<open>\<open>p.relative_to(other)\<close> raises \<open>ValueError\<close> unless \<open>p\<close> lies under \<open>other\<close>.\<close>

definition relative_to :: "pure_path \<Rightarrow> pure_path \<Rightarrow> py_error + pure_path" where
  "relative_to p other =
     (if is_relative_to p other
      then Inr \<lparr> root = [], segments = drop (length (segments other)) (segments p) \<rparr>
      else Inl ValueError)"

section \<open>\<open>_file_management.py\<close>\<close>

record MFFilePath =
  file_path :: string
  model_name :: "(string, nat) dict"

text \<open>
  \<open>MFFileMgmt\<close>: the attributes assigned in \<open>__init__\<close>. \<open>_sim_path\<close> is the absolute
  path stored by \<open>set_sim_path\<close>, held as its string; \<open>_last_loaded_sim_path\<close> is
  \<open>None\<close> until \<open>set_last_accessed_path\<close> runs.
\<close>

record MFFileMgmt =
  sim_path :: string
  existing_file_dict :: "(string, MFFilePath) dict"
  model_relative_path :: "(string, string) dict"
  last_loaded_sim_path :: "string option"
  last_loaded_model_relative_path :: "(string, string) dict"

definition get_sim_path :: "MFFileMgmt \<Rightarrow> bool \<Rightarrow> string option" where
  "get_sim_path m last_loaded_path =
     (if last_loaded_path then last_loaded_sim_path m else Some (sim_path m))"

text \<open>The argument of \<open>resolve_path\<close>: a raw string or an \<open>MFFilePath\<close>.\<close>

datatype path_spec = Raw string | Rec MFFilePath

definition spec_str :: "path_spec \<Rightarrow> string" where
  "spec_str p = (case p of Raw s \<Rightarrow> s | Rec r \<Rightarrow> file_path r)"

definition strip_quotes :: "string \<Rightarrow> string" where
  "strip_quotes s = filter (\<lambda>c. c \<noteq> CHR 0x22) (filter (\<lambda>c. c \<noteq> CHR 0x27) s)"

text \<open>
  \<open>resolve_path\<close> returns a string, or \<open>None\<close> when an absolute path is moved into a
  snapshot root that was never taken; joining onto that \<open>None\<close> raises.
\<close>

definition resolve_path :: "MFFileMgmt \<Rightarrow> path_spec \<Rightarrow> bool \<Rightarrow> bool \<Rightarrow> py_error + string option" where
  "resolve_path m p last_loaded_path move_abs_paths =
     (let file_path = strip_quotes (spec_str p) in
      if isabs file_path then
        (if move_abs_paths then Inr (get_sim_path m last_loaded_path)
         else Inr (Some file_path))
      else map_sum id Some (os_path_join (get_sim_path m last_loaded_path) file_path))"

text \<open>
  \<open>get_model_path\<close>. The arguments of \<open>os.path.join\<close> are evaluated first, so under
  \<open>last_loaded_path\<close> the subscript \<open>_last_loaded_model_relative_path[key]\<close> raises
  \<open>KeyError\<close> before the join sees the root.
\<close>

definition get_model_path :: "MFFileMgmt \<Rightarrow> string \<Rightarrow> bool \<Rightarrow> py_error + string" where
  "get_model_path m key last_loaded_path =
     (if last_loaded_path then
        (case dict_get (last_loaded_model_relative_path m) key of
           None \<Rightarrow> Inl KeyError
         | Some rel \<Rightarrow> os_path_join (last_loaded_sim_path m) rel)
      else if dict_in key (model_relative_path m) then
        (case dict_get (model_relative_path m) key of
           None \<Rightarrow> Inl KeyError
         | Some rel \<Rightarrow> os_path_join (Some (sim_path m)) rel)
      else Inr (sim_path m))"

text \<open>\<open>s.rfind(c)\<close>: the last index of \<open>c\<close>, or \<open>-1\<close>.\<close>

fun rfind_from :: "char \<Rightarrow> string \<Rightarrow> int \<Rightarrow> int \<Rightarrow> int" where
  "rfind_from c [] i found = found"
| "rfind_from c (x # xs) i found = rfind_from c xs (i + 1) (if x = c then i else found)"

definition rfind :: "char \<Rightarrow> string \<Rightarrow> int" where
  "rfind c s = rfind_from c s 0 (- 1)"

text \<open>
  The loop of \<open>genericpath._splitext\<close> over the characters between the last separator
  and the last dot: it finds an extension as soon as one of them is not a dot.
\<close>

fun skip_leading_dots :: "string \<Rightarrow> bool" where
  "skip_leading_dots [] = False"
| "skip_leading_dots (c # cs) = (if c \<noteq> CHR ''.'' then True else skip_leading_dots cs)"

definition splitext :: "string \<Rightarrow> string \<times> string" where
  "splitext p =
     (let sepIndex = rfind CHR ''/'' p;
          dotIndex = rfind CHR ''.'' p
      in if dotIndex > sepIndex \<and>
            skip_leading_dots (take (nat (dotIndex - (sepIndex + 1))) (drop (nat (sepIndex + 1)) p))
         then (take (nat dotIndex) p, drop (nat dotIndex) p)
         else (p, []))"

text \<open>\<open>str(num)\<close> for a counter that starts at 0 and is only incremented.\<close>

definition digit_char :: "nat \<Rightarrow> char" where
  "digit_char d = ''0123456789'' ! d"

fun str_nat :: "nat \<Rightarrow> string" where
  "str_nat n = (if n < 10 then [digit_char n] else str_nat (n div 10) @ [digit_char (n mod 10)])"

declare str_nat.simps [simp del]

definition build_file :: "string \<Rightarrow> nat \<Rightarrow> string" where
  "build_file file_name num =
     (case splitext file_name of
        (file, ext) \<Rightarrow>
          if ext \<noteq> [] then file @ ''_'' @ str_nat num @ ext
          else file @ ''_'' @ str_nat num)"

text \<open>
  \<open>unique_file_name\<close>: the \<open>while\<close> loop has no bound of its own, so the model is a
  partial function; \<open>None\<close> stands for a loop that never ends.
\<close>

partial_function (option) unique_loop :: "string \<Rightarrow> string set \<Rightarrow> nat \<Rightarrow> string option" where
  "unique_loop file_name lookup num =
     (if build_file file_name num \<in> lookup then unique_loop file_name lookup (num + 1)
      else Some (build_file file_name num))"

definition unique_file_name :: "string \<Rightarrow> string set \<Rightarrow> string option" where
  "unique_file_name file_name lookup = unique_loop file_name lookup 0"

text \<open>Reading a decimal numeral back, to show that \<open>str\<close> is injective.\<close>

definition digit_val :: "char \<Rightarrow> nat" where
  "digit_val c = (of_char c - 48)"

definition nat_of_str :: "string \<Rightarrow> nat" where
  "nat_of_str s = foldl (\<lambda>acc c. 10 * acc + digit_val c) 0 s"

text \<open>
  A warning passed to \<open>warnings.warn\<close>; the message names the path (the traceback text
  in it is not modelled).
\<close>

datatype warning = CouldNotStrip string

text \<open>
  \<open>strip_model_relative_path\<close> returns the string and the warnings it emitted. The
  membership test and the subscript on \<open>model_relative_path\<close> are one lookup here;
  \<open>not any(s)\<close> on a string holds exactly when \<open>s\<close> is empty. The exits of the guards
  return the argument as it came; the common exit returns \<open>as_posix()\<close> of a path, after
  \<open>relative_to\<close> or, when that raised \<open>ValueError\<close>, of \<open>Path(path)\<close> with a warning.
\<close>

definition strip_model_relative_path :: "MFFileMgmt \<Rightarrow> string \<Rightarrow> string \<Rightarrow> string \<times> warning list" where
  "strip_model_relative_path m name p =
     (case dict_get (model_relative_path m) name of
        None \<Rightarrow> (p, [])
      | Some rel \<Rightarrow>
          (let model_rel_path = Path rel
           in if is_absolute model_rel_path
                 \<or> path_str model_rel_path = []
                 \<or> path_str model_rel_path = ''.''
              then (p, [])
              else (case relative_to (Path p) model_rel_path of
                      Inl e \<Rightarrow> (as_posix (Path p), [CouldNotStrip p])
                    | Inr ret_path \<Rightarrow> (as_posix ret_path, []))))"

text \<open>\<open>os.path.split(p)[0]\<close>: everything up to the last slash, without trailing slashes
  unless it consists of slashes only.\<close>

definition rstrip :: "char \<Rightarrow> string \<Rightarrow> string" where
  "rstrip c s = rev (dropWhile (\<lambda>x. x = c) (rev s))"

definition split_head :: "string \<Rightarrow> string" where
  "split_head p =
     (let i = rfind CHR ''/'' p + 1;
          head = take (nat i) p
      in if head \<noteq> [] \<and> head \<noteq> replicate (length head) CHR ''/''
         then rstrip CHR ''/'' head else head)"

text \<open>
  The file system as \<open>copy_files\<close> sees it: the regular files (\<open>os.path.isfile\<close>) and
  the directories; \<open>os.path.exists\<close> holds for both. Which calls of \<open>copyfile\<close> and
  \<open>os.makedirs\<close> fail is a parameter.
\<close>

record filesystem =
  files :: "string set"
  dirs :: "string set"

definition path_exists :: "filesystem \<Rightarrow> string \<Rightarrow> bool" where
  "path_exists fs p = (p \<in> files fs \<or> p \<in> dirs fs)"

record faults =
  copyfile_fails :: "string \<Rightarrow> string \<Rightarrow> bool"
  makedirs_fails :: "string \<Rightarrow> bool"

text \<open>
  The attributes of an \<open>MFFileMgmt\<close> object: those assigned in \<open>__init__\<close> and the
  methods of the class. Reading any other attribute raises \<open>AttributeError\<close>.
\<close>

definition MFFileMgmt_attributes :: "string list" where
  "MFFileMgmt_attributes =
     [''_sim_path'', ''existing_file_dict'', ''model_relative_path'',
      ''_last_loaded_sim_path'', ''_last_loaded_model_relative_path'',
      ''copy_files'', ''strip_model_relative_path'', ''unique_file_name'', ''_build_file'',
      ''set_last_accessed_path'', ''set_last_accessed_model_path'', ''get_model_path'',
      ''get_sim_path'', ''add_ext_file'', ''set_sim_path'', ''resolve_path'']"

text \<open>
  The handler of a failed \<open>copyfile\<close>. It builds the arguments of \<open>MFDataException\<close>
  from left to right, starting with \<open>self.structure.get_model()\<close>; the exception that
  leaves the handler is the \<open>AttributeError\<close> of that first read unless the object has
  the attribute.
\<close>

definition copy_failure :: py_error where
  "copy_failure =
     (if ''structure'' \<in> set MFFileMgmt_attributes
      then MFDataException ''appending data''
      else AttributeError ''structure'')"

text \<open>
  The loop of \<open>copy_files\<close> over \<open>existing_file_dict.values()\<close>, with the file system
  and the count threaded through. An exception ends the loop; the file system reached
  so far is returned with it.
\<close>

fun copy_loop :: "faults \<Rightarrow> MFFileMgmt \<Rightarrow> bool \<Rightarrow> MFFilePath list \<Rightarrow> filesystem \<Rightarrow> nat
    \<Rightarrow> filesystem \<times> (py_error + nat)" where
  "copy_loop flt m copy_relative_only [] fs num_files_copied = (fs, Inr num_files_copied)"
| "copy_loop flt m copy_relative_only (mffile_path # rest) fs num_files_copied =
     (case resolve_path m (Rec mffile_path) True False of
        Inl e \<Rightarrow> (fs, Inl e)
      | Inr None \<Rightarrow> (fs, Inl TypeError)
      | Inr (Some path_old) \<Rightarrow>
          if path_old \<in> files fs \<and> (\<not> isabs (file_path mffile_path) \<or> \<not> copy_relative_only)
          then
            (case resolve_path m (Rec mffile_path) False False of
               Inl e \<Rightarrow> (fs, Inl e)
             | Inr path_new_opt \<Rightarrow>
                 if Some path_old \<noteq> path_new_opt
                 then
                   (case path_new_opt of
                      None \<Rightarrow> (fs, Inl TypeError)
                    | Some path_new \<Rightarrow>
                        (let new_folders = split_head path_new in
                         if \<not> path_exists fs new_folders \<and> makedirs_fails flt new_folders
                         then (fs, Inl OSError)
                         else
                           (let fs1 = (if \<not> path_exists fs new_folders
                                       then fs\<lparr>dirs := insert new_folders (dirs fs)\<rparr> else fs)
                            in if copyfile_fails flt path_old path_new
                               then (fs1, Inl copy_failure)
                               else copy_loop flt m copy_relative_only rest
                                      (fs1\<lparr>files := insert path_new (files fs1)\<rparr>)
                                      (num_files_copied + 1))))
                 else copy_loop flt m copy_relative_only rest fs num_files_copied)
          else copy_loop flt m copy_relative_only rest fs num_files_copied)"

definition copy_files :: "faults \<Rightarrow> MFFileMgmt \<Rightarrow> bool \<Rightarrow> filesystem \<Rightarrow> filesystem \<times> (py_error + nat)" where
  "copy_files flt m copy_relative_only fs =
     (if last_loaded_sim_path m \<noteq> None
      then copy_loop flt m copy_relative_only (map snd (existing_file_dict m)) fs 0
      else (fs, Inr 0))"

section \<open>\<open>mfbase.py\<close>: \<open>PackageContainer\<close>\<close>

text \<open>\<open>str.lower\<close> on ASCII text.\<close>

definition lower_char :: "char \<Rightarrow> char" where
  "lower_char c =
     (case map_of (zip ''ABCDEFGHIJKLMNOPQRSTUVWXYZ'' ''abcdefghijklmnopqrstuvwxyz'') c of
        None \<Rightarrow> c
      | Some l \<Rightarrow> l)"

definition lower :: "string \<Rightarrow> string" where
  "lower s = map lower_char s"

text \<open>
  A component of a package path or of a key of the data store is a string or an
  integer; a key is a tuple of components.
\<close>

datatype ident = Name string | Num int

type_synonym key = "ident list"

text \<open>
  A package, with the attributes the container reads. Packages are compared by object
  identity (\<open>obj_id\<close>): two packages with equal attributes are still two packages.
\<close>

record package =
  obj_id :: nat
  package_name :: "string option"
  filename :: "string option"
  package_type :: string
  path :: key

text \<open>
  The container with its three indexes, and the store \<open>_simulation_data.mfdata\<close> it
  keeps in step with the packages.
\<close>

record 'v PackageContainer =
  packagelist :: "package list"
  package_type_dict :: "(string, package list) dict"
  package_name_dict :: "(string, package) dict"
  package_filename_dict :: "(string, package) dict"
  mfdata :: "(key, 'v) dict"

definition empty_container :: "'v PackageContainer" where
  "empty_container =
     \<lparr> packagelist = [], package_type_dict = [], package_name_dict = [],
       package_filename_dict = [], mfdata = [] \<rparr>"

text \<open>
  \<open>add_package\<close>. The membership test reads the type as given, the assignments use its
  lower-case form; the final subscript raises \<open>KeyError\<close> when the test found the type
  as given but no lower-case bucket exists.
\<close>

definition add_package :: "'v PackageContainer \<Rightarrow> package \<Rightarrow> py_error + 'v PackageContainer" where
  "add_package c p =
     (let c1 = c\<lparr>packagelist := packagelist c @ [p]\<rparr>;
          c2 = (case package_name p of
                  None \<Rightarrow> c1
                | Some n \<Rightarrow> c1\<lparr>package_name_dict := dict_set (lower n) p (package_name_dict c1)\<rparr>);
          c3 = (case filename p of
                  None \<Rightarrow> c2
                | Some f \<Rightarrow> c2\<lparr>package_filename_dict := dict_set (lower f) p (package_filename_dict c2)\<rparr>);
          c4 = (if \<not> dict_in (package_type p) (package_type_dict c3)
                then c3\<lparr>package_type_dict := dict_set (lower (package_type p)) [] (package_type_dict c3)\<rparr>
                else c3)
      in case dict_get (package_type_dict c4) (lower (package_type p)) of
           None \<Rightarrow> Inl KeyError
         | Some ps \<Rightarrow>
             Inr (c4\<lparr>package_type_dict := dict_set (lower (package_type p)) (ps @ [p]) (package_type_dict c4)\<rparr>))"

text \<open>Adding a sequence of packages, stopping at the first exception.\<close>

fun add_packages :: "'v PackageContainer \<Rightarrow> package list \<Rightarrow> py_error + 'v PackageContainer" where
  "add_packages c [] = Inr c"
| "add_packages c (p # ps) =
     (case add_package c p of Inl e \<Rightarrow> Inl e | Inr c' \<Rightarrow> add_packages c' ps)"

text \<open>
  The test shared by \<open>remove_package\<close> and \<open>_rename_package\<close>: the loop over
  \<open>zip(package.path, key)\<close> that clears \<open>is_subkey\<close> and breaks at the first pair of
  different components.
\<close>

fun subkey_loop :: "(ident \<times> ident) list \<Rightarrow> bool" where
  "subkey_loop [] = True"
| "subkey_loop ((pitem, ditem) # rest) = (if pitem \<noteq> ditem then False else subkey_loop rest)"

definition is_subkey :: "key \<Rightarrow> key \<Rightarrow> bool" where
  "is_subkey ppath k = subkey_loop (zip ppath k)"

definition remove_package :: "'v PackageContainer \<Rightarrow> package \<Rightarrow> 'v PackageContainer" where
  "remove_package c p =
     (let c1 = (if p \<in> set (packagelist c)
                then c\<lparr>packagelist := remove1 p (packagelist c)\<rparr> else c);
          c2 = (case package_name p of
                  None \<Rightarrow> c1
                | Some n \<Rightarrow>
                    if dict_in (lower n) (package_name_dict c1)
                    then c1\<lparr>package_name_dict := dict_del (lower n) (package_name_dict c1)\<rparr>
                    else c1);
          c3 = (case filename p of
                  None \<Rightarrow> c2
                | Some f \<Rightarrow>
                    if dict_in (lower f) (package_filename_dict c2)
                    then c2\<lparr>package_filename_dict := dict_del (lower f) (package_filename_dict c2)\<rparr>
                    else c2);
          c4 = (case dict_get (package_type_dict c3) (lower (package_type p)) of
                  None \<Rightarrow> c3
                | Some package_list \<Rightarrow>
                    (let package_list' = (if p \<in> set package_list
                                          then remove1 p package_list else package_list)
                     in if length package_list' = 0
                        then c3\<lparr>package_type_dict :=
                                  dict_del (lower (package_type p)) (package_type_dict c3)\<rparr>
                        else c3\<lparr>package_type_dict :=
                                  dict_set (lower (package_type p)) package_list' (package_type_dict c3)\<rparr>));
          items_to_remove = filter (is_subkey (path p)) (map fst (mfdata c4))
      in c4\<lparr>mfdata := fold dict_del items_to_remove (mfdata c4)\<rparr>)"

text \<open>
  Python slices: \<open>xs[:-1]\<close> is \<open>butlast xs\<close>; \<open>xs[i:]\<close> counts a negative \<open>i\<close> from the
  end and clamps it.
\<close>

definition slice_from :: "int \<Rightarrow> 'a list \<Rightarrow> 'a list" where
  "slice_from i xs =
     (if i < 0 then drop (nat (max 0 (int (length xs) + i))) xs else drop (nat i) xs)"

text \<open>
  One step of the re-keying loop: \<open>main_dict[new_key] = main_dict.pop(key)\<close>, the
  \<open>pop\<close> first.
\<close>

definition rekey :: "key \<Rightarrow> string \<Rightarrow> key \<Rightarrow> (key, 'v) dict \<Rightarrow> py_error + (key, 'v) dict" where
  "rekey ppath new_name k d =
     (let new_key = butlast ppath @ [Name new_name] @ slice_from (int (length ppath) - 1) k
      in case dict_get d k of
           None \<Rightarrow> Inl KeyError
         | Some v \<Rightarrow> Inr (dict_set new_key v (dict_del k d)))"

fun rekey_all :: "key \<Rightarrow> string \<Rightarrow> key list \<Rightarrow> (key, 'v) dict \<Rightarrow> py_error + (key, 'v) dict" where
  "rekey_all ppath new_name [] d = Inr d"
| "rekey_all ppath new_name (k # ks) d =
     (case rekey ppath new_name k d of
        Inl e \<Rightarrow> Inl e
      | Inr d' \<Rightarrow> rekey_all ppath new_name ks d')"

definition rename_package :: "'v PackageContainer \<Rightarrow> package \<Rightarrow> string \<Rightarrow> py_error + 'v PackageContainer" where
  "rename_package c p new_name =
     (let c1 = (case package_name p of
                  None \<Rightarrow> c
                | Some n \<Rightarrow>
                    if dict_in (lower n) (package_name_dict c)
                    then c\<lparr>package_name_dict := dict_del (lower n) (package_name_dict c)\<rparr>
                    else c);
          c2 = c1\<lparr>package_name_dict := dict_set (lower new_name) p (package_name_dict c1)\<rparr>;
          items_to_fix = filter (is_subkey (path p)) (map fst (mfdata c2))
      in case rekey_all (path p) new_name items_to_fix (mfdata c2) of
           Inl e \<Rightarrow> Inl e
         | Inr d \<Rightarrow> Inr (c2\<lparr>mfdata := d\<rparr>))"

text \<open>\<open>int(ch)\<close> of a one-character string succeeds exactly on a decimal digit.\<close>

definition is_digit :: "char \<Rightarrow> bool" where
  "is_digit c = (c \<in> set ''0123456789'')"

text \<open>
  The inner loop of \<open>_in_pkg_list\<close> over \<open>zip(key, pkg_type)\<close>: \<open>matches\<close> is cleared
  when a segment of the query equals the key's segment neither as it is nor without
  its last character (\<open>pkg_item[0:-1]\<close>); the loop does not break.
\<close>

fun matches_loop :: "(string \<times> string) list \<Rightarrow> bool \<Rightarrow> bool" where
  "matches_loop [] matches = matches"
| "matches_loop ((key_item, pkg_item) # rest) matches =
     matches_loop rest
       (if butlast pkg_item \<noteq> key_item \<and> pkg_item \<noteq> key_item then False else matches)"

text \<open>The loop over \<open>pkg_list.keys()\<close>, returning at the first key that matches.\<close>

fun keys_loop :: "string list \<Rightarrow> string list \<Rightarrow> bool" where
  "keys_loop [] pkg_type = False"
| "keys_loop (k # ks) pkg_type =
     (let key = split_on CHR ''-'' k in
      if length key = length pkg_type \<and> matches_loop (zip key pkg_type) True then True
      else keys_loop ks pkg_type)"

definition opt_in :: "string option \<Rightarrow> (string, 'v) dict \<Rightarrow> bool" where
  "opt_in k d = (case k of None \<Rightarrow> False | Some s \<Rightarrow> dict_in s d)"

text \<open>
  \<open>_in_pkg_list\<close>. \<open>pkg_type\<close> and \<open>pkg_name\<close> may be \<open>None\<close>; \<open>None.split\<close> raises
  \<open>AttributeError\<close>. \<open>pkg_type[0][-1]\<close> raises \<open>IndexError\<close> on an empty first segment,
  which the handler for \<open>ValueError\<close> does not catch.
\<close>

definition in_pkg_list :: "(string, 'v) dict \<Rightarrow> string option \<Rightarrow> string option \<Rightarrow> py_error + bool" where
  "in_pkg_list pkg_list pkg_type pkg_name =
     (let pkg_type = map_option lower pkg_type;
          pkg_name = map_option lower pkg_name
      in if opt_in pkg_type pkg_list \<or> opt_in pkg_name pkg_list then Inr True
         else case pkg_type of
                None \<Rightarrow> Inl (AttributeError ''split'')
              | Some t \<Rightarrow>
                  (case split_on CHR ''-'' t of
                     [] \<Rightarrow> Inl IndexError
                   | seg # segs \<Rightarrow>
                       if seg = [] then Inl IndexError
                       else if \<not> is_digit (last seg) then Inr False
                       else Inr (keys_loop (map fst pkg_list) (seg # segs))))"

text \<open>
  Prefix equality as the specification words it: positional equality over the shorter
  of the two sequences.
\<close>

definition prefix_equal :: "key \<Rightarrow> key \<Rightarrow> bool" where
  "prefix_equal a b =
     (take (min (length a) (length b)) a = take (min (length a) (length b)) b)"

text \<open>Example data: a well package of model \<open>gwf1\<close> and its stress-period data.\<close>

definition wel_1 :: package where
  "wel_1 =
     \<lparr> obj_id = 1, package_name = Some ''WEL-1'', filename = Some ''gwf1.wel'',
       package_type = ''wel'', path = [Name ''gwf1'', Name ''wel'', Name ''WEL-1''] \<rparr>"

definition wel_upper :: package where
  "wel_upper =
     \<lparr> obj_id = 2, package_name = Some ''WEL-B'', filename = Some ''gwf1_b.wel'',
       package_type = ''WEL'', path = [Name ''gwf1'', Name ''wel'', Name ''WEL-B''] \<rparr>"

definition wel_store :: "string PackageContainer" where
  "wel_store =
     \<lparr> packagelist = [wel_1],
       package_type_dict = [(''wel'', [wel_1])],
       package_name_dict = [(''wel-1'', wel_1)],
       package_filename_dict = [(''gwf1.wel'', wel_1)],
       mfdata =
         [([Name ''gwf1'', Name ''wel'', Name ''WEL-1'', Name ''period'', Num 1], ''rates''),
          ([Name ''gwf1'', Name ''riv'', Name ''RIV-1'', Name ''period'', Num 1], ''stages'')] \<rparr>"

text \<open>Example data: a manager whose root moved from \<open>/old\<close> to \<open>/new\<close> after a snapshot.\<close>

definition mgmt_moved :: MFFileMgmt where
  "mgmt_moved =
     \<lparr> sim_path = ''/new'', existing_file_dict = [], model_relative_path = [],
       last_loaded_sim_path = Some ''/old'', last_loaded_model_relative_path = [] \<rparr>"

text \<open>Example data: models with a proper, a current-directory and an absolute relative path.\<close>

definition mgmt_models :: MFFileMgmt where
  "mgmt_models =
     \<lparr> sim_path = ''/new'', existing_file_dict = [],
       model_relative_path = [(''gwf1'', ''models/gwf1''), (''gwt1'', ''.''), (''gwe1'', ''/abs/gwe1'')],
       last_loaded_sim_path = None, last_loaded_model_relative_path = [] \<rparr>"

text \<open>
  Example data: three external files of a simulation moved from \<open>/old\<close> to \<open>/new\<close>,
  and a disk on which copying \<open>b.txt\<close> fails.
\<close>

definition mgmt_files :: MFFileMgmt where
  "mgmt_files =
     \<lparr> sim_path = ''/new'',
       existing_file_dict =
         [(''a.txt'', \<lparr> file_path = ''a.txt'', model_name = [(''gwf1'', 0)] \<rparr>),
          (''b.txt'', \<lparr> file_path = ''b.txt'', model_name = [(''gwf1'', 0)] \<rparr>),
          (''c.txt'', \<lparr> file_path = ''c.txt'', model_name = [(''gwf1'', 0)] \<rparr>)],
       model_relative_path = [(''gwf1'', ''.'')],
       last_loaded_sim_path = Some ''/old'',
       last_loaded_model_relative_path = [(''gwf1'', ''.'')] \<rparr>"

definition disk_old :: filesystem where
  "disk_old =
     \<lparr> files = {''/old/a.txt'', ''/old/b.txt'', ''/old/c.txt''}, dirs = {''/old'', ''/new''} \<rparr>"

definition b_fails :: faults where
  "b_fails =
     \<lparr> copyfile_fails = (\<lambda>src dst. src = ''/old/b.txt''), makedirs_fails = (\<lambda>d. False) \<rparr>"

definition no_faults :: faults where
  "no_faults = \<lparr> copyfile_fails = (\<lambda>src dst. False), makedirs_fails = (\<lambda>d. False) \<rparr>"

section \<open>Path resolution\<close>

lemma join_relative:
  "\<not> isabs b \<Longrightarrow> join a b = (if a = [] \<or> last a = CHR ''/'' then a @ b else a @ ''/'' @ b)"
  by (simp add: join_def)

text \<open>
  C1. Let \<open>f\<close> be the path specification of \<open>p\<close> (a raw string or the \<open>file_path\<close> of a
  record) with every single and double quote removed. If \<open>f\<close> is absolute,
  \<open>resolve_path\<close> without \<open>move_abs_paths\<close> returns \<open>f\<close> whatever the manager (and so
  whatever the root) is, and with \<open>move_abs_paths\<close> it returns the current root, or the
  snapshot root under \<open>last_loaded_path\<close>. If \<open>f\<close> is relative, \<open>resolve_path\<close> returns
  \<open>os.path.join\<close> of the selected root and \<open>f\<close>: for the current root always a string,
  for the snapshot root the join of that root, which raises \<open>TypeError\<close> when no
  snapshot was taken.
\<close>

theorem resolve_path_cases:
  "(isabs (strip_quotes (spec_str p)) \<longrightarrow>
      resolve_path m p False False = Inr (Some (strip_quotes (spec_str p))) \<and>
      resolve_path m p False False = resolve_path m' p False False \<and>
      resolve_path m p False True = Inr (Some (sim_path m)) \<and>
      resolve_path m p True True = Inr (last_loaded_sim_path m)) \<and>
   (\<not> isabs (strip_quotes (spec_str p)) \<longrightarrow>
      resolve_path m p ll mv =
        map_sum id Some (os_path_join (get_sim_path m ll) (strip_quotes (spec_str p))) \<and>
      resolve_path m p False mv =
        Inr (Some (join (sim_path m) (strip_quotes (spec_str p)))) \<and>
      resolve_path m p True mv =
        (case last_loaded_sim_path m of
           None \<Rightarrow> Inl TypeError
         | Some r \<Rightarrow> Inr (Some (join r (strip_quotes (spec_str p))))))"
  by (simp add: resolve_path_def get_sim_path_def os_path_join_def Let_def
      split: option.split)

theorem resolve_path_cases_witness:
  "isabs (strip_quotes (spec_str (Rec \<lparr> file_path = [CHR 0x27] @ ''/data/a.txt'' @ [CHR 0x27], model_name = [(''gwf1'', 0)] \<rparr>))) \<and>
   resolve_path mgmt_moved (Rec \<lparr> file_path = [CHR 0x27] @ ''/data/a.txt'' @ [CHR 0x27], model_name = [(''gwf1'', 0)] \<rparr>) False False
     = Inr (Some ''/data/a.txt'') \<and>
   resolve_path mgmt_moved (Rec \<lparr> file_path = [CHR 0x27] @ ''/data/a.txt'' @ [CHR 0x27], model_name = [(''gwf1'', 0)] \<rparr>) False True
     = Inr (Some ''/new'') \<and>
   resolve_path mgmt_moved (Rec \<lparr> file_path = [CHR 0x27] @ ''/data/a.txt'' @ [CHR 0x27], model_name = [(''gwf1'', 0)] \<rparr>) True True
     = Inr (Some ''/old'') \<and>
   \<not> isabs (strip_quotes (spec_str (Raw ([CHR 0x22] @ ''sub/b.txt'' @ [CHR 0x22])))) \<and>
   resolve_path mgmt_moved (Raw ([CHR 0x22] @ ''sub/b.txt'' @ [CHR 0x22])) False False
     = Inr (Some ''/new/sub/b.txt'') \<and>
   resolve_path mgmt_moved (Raw ([CHR 0x22] @ ''sub/b.txt'' @ [CHR 0x22])) True False
     = Inr (Some ''/old/sub/b.txt'')"
  using resolve_path_cases [of "Rec \<lparr> file_path = [CHR 0x27] @ ''/data/a.txt'' @ [CHR 0x27], model_name = [(''gwf1'', 0)] \<rparr>" mgmt_moved mgmt_moved False False]
    resolve_path_cases [of "Raw ([CHR 0x22] @ ''sub/b.txt'' @ [CHR 0x22])" mgmt_moved mgmt_moved False False]
  by (simp add: isabs_def strip_quotes_def spec_str_def join_def mgmt_moved_def
      get_sim_path_def os_path_join_def)

text \<open>
  C8. \<open>get_model_path\<close> for a model without a registered relative path: with
  \<open>last_loaded_path\<close> unset it returns the simulation root, with \<open>last_loaded_path\<close>
  set the subscript on the snapshot mapping raises \<open>KeyError\<close>.
\<close>

theorem get_model_path_unregistered:
  "get_model_path mgmt_moved ''gwf1'' False = Inr ''/new'' \<and>
   get_model_path mgmt_moved ''gwf1'' True = Inl KeyError"
  by (simp add: get_model_path_def mgmt_moved_def dict_in_def dict_get_def)

section \<open>Copying external files\<close>

text \<open>
  C4. \<open>copy_files\<close> on three relative files when the copy of the second fails: the
  first file is copied, the loop stops at the second and the third is not tried, but
  the exception that reaches the caller is \<open>AttributeError\<close> (\<open>MFFileMgmt\<close> has no
  attribute \<open>structure\<close>), not \<open>MFDataException\<close>. Without a failure all three are
  copied.
\<close>

theorem copy_files_failure_is_attribute_error:
  "snd (copy_files b_fails mgmt_files True disk_old) = Inl (AttributeError ''structure'') \<and>
   files (fst (copy_files b_fails mgmt_files True disk_old)) = insert ''/new/a.txt'' (files disk_old) \<and>
   snd (copy_files no_faults mgmt_files True disk_old) = Inr 3"
  by (simp add: copy_files_def mgmt_files_def disk_old_def b_fails_def no_faults_def
      resolve_path_def get_sim_path_def os_path_join_def join_def isabs_def strip_quotes_def
      spec_str_def split_head_def rfind_def rstrip_def path_exists_def copy_failure_def
      MFFileMgmt_attributes_def Let_def)

section \<open>Stripping the model relative path\<close>

lemma split_on_not_Nil: "split_on sep s \<noteq> []"
  by (induction s) (auto split: list.splits)

lemma split_on_append_sep: "split_on sep (a @ sep # b) = split_on sep a @ split_on sep b"
proof (induction a)
  case Nil
  then show ?case by simp
next
  case (Cons c a)
  then show ?case
    using split_on_not_Nil [of sep a] by (auto split: list.splits)
qed

lemma split_on_no_sep: "sep \<notin> set w \<Longrightarrow> split_on sep w = [w]"
  by (induction w) auto

lemma Path_root_isabs: "is_absolute (Path s) = isabs s"
  by (cases s) (auto simp: is_absolute_def Path_def isabs_def Let_def)

lemma Path_root_relative: "\<not> isabs s \<Longrightarrow> root (Path s) = []"
  using Path_root_isabs [of s] by (simp add: is_absolute_def)

lemma Path_segments_append_sep:
  "segments (Path (a @ CHR ''/'' # b)) = segments (Path a) @ segments (Path b)"
  by (simp add: Path_def split_on_append_sep)

lemma Path_segments_trailing_sep:
  "segments (Path (a @ ''/'')) = segments (Path a)"
  using Path_segments_append_sep [of a "[]"] by (simp add: Path_def)

lemma isabs_append: "a \<noteq> [] \<Longrightarrow> isabs (a @ b) = isabs a"
  by (cases a) (auto simp: isabs_def)

lemma Path_join_relative:
  assumes rel: "\<not> isabs rel" and ne: "segments (Path rel) \<noteq> []" and t: "\<not> isabs t"
  shows "root (Path (join rel t)) = []"
    and "segments (Path (join rel t)) = segments (Path rel) @ segments (Path t)"
proof -
  have nonempty: "rel \<noteq> []"
    using ne by (auto simp: Path_def)
  show "root (Path (join rel t)) = []"
  proof (rule Path_root_relative)
    show "\<not> isabs (join rel t)"
      using rel t nonempty by (simp add: join_def isabs_append)
  qed
  show "segments (Path (join rel t)) = segments (Path rel) @ segments (Path t)"
  proof (cases "last rel = CHR ''/''")
    case True
    with nonempty have split: "rel = butlast rel @ ''/''"
      by (metis append_butlast_last_id)
    have "join rel t = butlast rel @ CHR ''/'' # t"
      using t True nonempty split by (simp add: join_def)
    then have "segments (Path (join rel t)) = segments (Path (butlast rel)) @ segments (Path t)"
      by (simp add: Path_segments_append_sep)
    moreover have "segments (Path rel) = segments (Path (butlast rel))"
      using Path_segments_trailing_sep [of "butlast rel"] split by simp
    ultimately show ?thesis by simp
  next
    case False
    then have "join rel t = rel @ CHR ''/'' # t"
      using t nonempty by (simp add: join_def)
    then show ?thesis by (simp add: Path_segments_append_sep)
  qed
qed


lemma sep_join_Cons: "sep_join (w # ws) = (if ws = [] then w else w @ ''/'' @ sep_join ws)"
  by (cases ws) simp_all

lemma segments_Path_proper: "w \<in> set (segments (Path s)) \<Longrightarrow> w \<noteq> [] \<and> w \<noteq> ''.''"
  by (simp add: Path_def)

lemma path_str_Path_dot:
  "(path_str (Path s) = ''.'') = (\<not> isabs s \<and> segments (Path s) = [])"
proof (cases "isabs s")
  case True
  then have "root (Path s) \<noteq> []"
    using Path_root_isabs [of s] by (simp add: is_absolute_def)
  moreover have "root (Path s) = ''/'' \<or> root (Path s) = ''//'' \<or> root (Path s) = []"
    by (simp add: Path_def Let_def)
  ultimately show ?thesis
    using True by (auto simp: path_str_def)
next
  case False
  then have r: "root (Path s) = []" by (rule Path_root_relative)
  show ?thesis
  proof (cases "segments (Path s)")
    case Nil
    with r False show ?thesis by (simp add: path_str_def)
  next
    case (Cons w ws)
    then have "w \<noteq> [] \<and> w \<noteq> ''.''"
      using segments_Path_proper [of w s] by simp
    then have "sep_join (w # ws) \<noteq> ''.''"
      by (cases w) (auto simp: sep_join_Cons)
    with r Cons False show ?thesis by (simp add: path_str_def)
  qed
qed

lemma path_str_Path_not_Nil: "path_str (Path s) \<noteq> []"
proof (cases "segments (Path s)")
  case Nil
  then show ?thesis by (simp add: path_str_def)
next
  case (Cons w ws)
  then have "w \<noteq> []"
    using segments_Path_proper [of w s] by simp
  with Cons show ?thesis by (simp add: path_str_def sep_join_Cons)
qed

lemma strip_trivial:
  "dict_get (model_relative_path m) name = None \<or>
   (\<exists>rel. dict_get (model_relative_path m) name = Some rel \<and>
          (isabs rel \<or> path_str (Path rel) = ''.''))
   \<Longrightarrow> strip_model_relative_path m name p = (p, [])"
  by (auto simp: strip_model_relative_path_def Path_root_isabs Let_def)

lemma strip_joined:
  assumes reg: "dict_get (model_relative_path m) name = Some rel"
    and rel: "\<not> isabs rel" and nontrivial: "path_str (Path rel) \<noteq> ''.''"
  shows "fst (strip_model_relative_path m name (join rel t)) = as_posix (Path t)"
proof -
  have segs: "segments (Path rel) \<noteq> []"
    using rel nontrivial by (simp add: path_str_Path_dot)
  have rroot: "root (Path rel) = []"
    using rel by (rule Path_root_relative)
  have guard: "\<not> (is_absolute (Path rel) \<or> path_str (Path rel) = [] \<or> path_str (Path rel) = ''.'')"
    using rel nontrivial by (simp add: Path_root_isabs path_str_Path_not_Nil)
  show ?thesis
  proof (cases "isabs t")
    case True
    then have "join rel t = t" by (simp add: join_def)
    moreover have "root (Path t) \<noteq> []"
      using True Path_root_isabs [of t] by (simp add: is_absolute_def)
    then have "\<not> is_relative_to (Path t) (Path rel)"
      using rroot by (simp add: is_relative_to_def)
    ultimately show ?thesis
      using reg guard by (simp add: strip_model_relative_path_def relative_to_def Let_def)
  next
    case False
    have jroot: "root (Path (join rel t)) = []"
      and jsegs: "segments (Path (join rel t)) = segments (Path rel) @ segments (Path t)"
      using Path_join_relative [OF rel segs False] by simp_all
    have "is_relative_to (Path (join rel t)) (Path rel)"
      using jroot jsegs rroot by (simp add: is_relative_to_def)
    then have "strip_model_relative_path m name (join rel t)
        = (as_posix \<lparr> root = [], segments = segments (Path t) \<rparr>, [])"
      using reg guard jsegs by (simp add: strip_model_relative_path_def relative_to_def Let_def)
    moreover have "\<lparr> root = [], segments = segments (Path t) \<rparr> = Path t"
      using Path_root_relative [OF False] by simp
    ultimately show ?thesis by simp
  qed
qed

lemma takeWhile_sep_join:
  "ws \<noteq> [] \<Longrightarrow> hd ws \<noteq> [] \<Longrightarrow> CHR ''/'' \<notin> set (hd ws)
   \<Longrightarrow> takeWhile (\<lambda>c. c = CHR ''/'') (sep_join ws) = []"
  by (cases ws; cases "hd ws") (auto simp: sep_join_Cons)

lemma split_on_sep_join:
  "ws \<noteq> [] \<Longrightarrow> \<forall>w \<in> set ws. CHR ''/'' \<notin> set w \<Longrightarrow> split_on CHR ''/'' (sep_join ws) = ws"
proof (induction ws rule: sep_join.induct)
  case 1
  then show ?case by simp
next
  case (2 w)
  then show ?case by (simp add: split_on_no_sep)
next
  case (3 w v vs)
  have "split_on CHR ''/'' (sep_join (w # v # vs)) = split_on CHR ''/'' w @ split_on CHR ''/'' (sep_join (v # vs))"
    using split_on_append_sep [of "CHR ''/''" w "sep_join (v # vs)"] by simp
  with 3 show ?case by (simp add: split_on_no_sep)
qed

text \<open>A path string in canonical form: non-empty proper segments joined by single slashes.\<close>

lemma as_posix_canonical:
  assumes "ws \<noteq> []" and "\<forall>w \<in> set ws. w \<noteq> [] \<and> w \<noteq> ''.'' \<and> CHR ''/'' \<notin> set w"
  shows "as_posix (Path (sep_join ws)) = sep_join ws"
proof -
  have "takeWhile (\<lambda>c. c = CHR ''/'') (sep_join ws) = []"
    using assms by (intro takeWhile_sep_join) auto
  moreover have "split_on CHR ''/'' (sep_join ws) = ws"
    using assms by (intro split_on_sep_join) auto
  moreover have "filter (\<lambda>w. w \<noteq> [] \<and> w \<noteq> ''.'') ws = ws"
    using assms by (simp add: filter_id_conv) 
  ultimately have "Path (sep_join ws) = \<lparr> root = [], segments = ws \<rparr>"
    by (simp add: Path_def)
  then show ?thesis
    using assms by (simp add: as_posix_def path_str_def)
qed



text \<open>
  C6. For a model whose registered relative path is not absolute and, as a path, is not
  the current directory, \<open>strip_model_relative_path\<close> applied to the join of that
  relative path and a tail returns the tail in forward-slash form, \<open>Path(tail).as_posix()\<close>;
  for a tail already written as proper segments joined by single slashes that is the
  tail itself. For a model that is not registered, or whose relative path is \<open>.\<close>, empty,
  absolute, or otherwise the current directory, the input path comes back unchanged and
  without a warning.
\<close>

theorem strip_model_relative_path_join:
  "(dict_get (model_relative_path m) name = Some rel \<and> \<not> isabs rel \<and> path_str (Path rel) \<noteq> ''.'' \<longrightarrow>
      fst (strip_model_relative_path m name (join rel t)) = as_posix (Path t) \<and>
      (ws \<noteq> [] \<and> (\<forall>w \<in> set ws. w \<noteq> [] \<and> w \<noteq> ''.'' \<and> CHR ''/'' \<notin> set w) \<longrightarrow>
         strip_model_relative_path m name (join rel (sep_join ws)) = (sep_join ws, []))) \<and>
   (dict_get (model_relative_path m) name = None \<or>
    dict_get (model_relative_path m) name = Some ''.'' \<or>
    dict_get (model_relative_path m) name = Some [] \<or>
    (\<exists>r. dict_get (model_relative_path m) name = Some r \<and> (isabs r \<or> path_str (Path r) = ''.''))
    \<longrightarrow> strip_model_relative_path m name p = (p, []))"
proof -
  have joined: "fst (strip_model_relative_path m name (join rel t)) = as_posix (Path t)"
    if "dict_get (model_relative_path m) name = Some rel" "\<not> isabs rel" "path_str (Path rel) \<noteq> ''.''"
    for t
    using that by (rule strip_joined)
  have canonical: "strip_model_relative_path m name (join rel (sep_join ws)) = (sep_join ws, [])"
    if reg: "dict_get (model_relative_path m) name = Some rel" and rel: "\<not> isabs rel"
      and nontrivial: "path_str (Path rel) \<noteq> ''.''"
      and ws: "ws \<noteq> []" "\<forall>w \<in> set ws. w \<noteq> [] \<and> w \<noteq> ''.'' \<and> CHR ''/'' \<notin> set w"
  proof -
    have t: "\<not> isabs (sep_join ws)"
      using ws by (cases ws; cases "hd ws") (auto simp: isabs_def sep_join_Cons)
    have segs: "segments (Path rel) \<noteq> []"
      using rel nontrivial by (simp add: path_str_Path_dot)
    have "is_relative_to (Path (join rel (sep_join ws))) (Path rel)"
      using Path_join_relative [OF rel segs t] Path_root_relative [OF rel]
      by (simp add: is_relative_to_def)
    then have "snd (strip_model_relative_path m name (join rel (sep_join ws))) = []"
      using reg rel nontrivial
      by (simp add: strip_model_relative_path_def relative_to_def Let_def Path_root_isabs
          path_str_Path_not_Nil)
    moreover have "fst (strip_model_relative_path m name (join rel (sep_join ws))) = sep_join ws"
      using joined [OF reg rel nontrivial] as_posix_canonical [OF ws] by simp
    ultimately show ?thesis by (simp add: prod_eq_iff)
  qed
  have trivial: "strip_model_relative_path m name p = (p, [])"
    if "dict_get (model_relative_path m) name = None \<or>
        dict_get (model_relative_path m) name = Some ''.'' \<or>
        dict_get (model_relative_path m) name = Some [] \<or>
        (\<exists>r. dict_get (model_relative_path m) name = Some r \<and> (isabs r \<or> path_str (Path r) = ''.''))"
  proof (rule strip_trivial)
    have "path_str (Path ''.'') = ''.''" "path_str (Path []) = ''.''"
      by (simp_all add: path_str_def Path_def)
    with that show "dict_get (model_relative_path m) name = None \<or>
        (\<exists>rel. dict_get (model_relative_path m) name = Some rel \<and> (isabs rel \<or> path_str (Path rel) = ''.''))"
      by auto
  qed
  from joined canonical trivial show ?thesis by blast
qed

theorem strip_model_relative_path_join_witness:
  "dict_get (model_relative_path mgmt_models) ''gwf1'' = Some ''models/gwf1'' \<and>
   \<not> isabs ''models/gwf1'' \<and> path_str (Path ''models/gwf1'') \<noteq> ''.'' \<and>
   fst (strip_model_relative_path mgmt_models ''gwf1'' (join ''models/gwf1'' ''wel//a.txt'')) = ''wel/a.txt'' \<and>
   strip_model_relative_path mgmt_models ''gwf1'' (join ''models/gwf1'' (sep_join [''wel'', ''a.txt'']))
     = (''wel/a.txt'', []) \<and>
   dict_get (model_relative_path mgmt_models) ''gwt1'' = Some ''.'' \<and>
   strip_model_relative_path mgmt_models ''gwt1'' ''models/gwt1/a.txt'' = (''models/gwt1/a.txt'', []) \<and>
   isabs ''/abs/gwe1'' \<and>
   strip_model_relative_path mgmt_models ''gwe1'' ''/abs/gwe1/a.txt'' = (''/abs/gwe1/a.txt'', []) \<and>
   dict_get (model_relative_path mgmt_models) ''gwf2'' = None \<and>
   strip_model_relative_path mgmt_models ''gwf2'' ''models/gwf1/a.txt'' = (''models/gwf1/a.txt'', [])"
proof -
  have reg: "dict_get (model_relative_path mgmt_models) ''gwf1'' = Some ''models/gwf1''"
    "dict_get (model_relative_path mgmt_models) ''gwt1'' = Some ''.''"
    "dict_get (model_relative_path mgmt_models) ''gwe1'' = Some ''/abs/gwe1''"
    "dict_get (model_relative_path mgmt_models) ''gwf2'' = None"
    by (simp_all add: mgmt_models_def dict_get_def)
  have rel: "\<not> isabs ''models/gwf1''" "isabs ''/abs/gwe1''"
    "path_str (Path ''models/gwf1'') \<noteq> ''.''"
    by (simp_all add: isabs_def path_str_def Path_def)
  have val: "as_posix (Path ''wel//a.txt'') = ''wel/a.txt''"
    by (simp add: as_posix_def path_str_def Path_def)
  show ?thesis
    using reg rel val
      strip_model_relative_path_join [of mgmt_models "''gwf1''" "''models/gwf1''" "''wel//a.txt''"
        "[''wel'', ''a.txt'']" "''x''"]
      strip_model_relative_path_join [of mgmt_models "''gwt1''" "''.''" "''x''" "[]" "''models/gwt1/a.txt''"]
      strip_model_relative_path_join [of mgmt_models "''gwe1''" "''.''" "''x''" "[]" "''/abs/gwe1/a.txt''"]
      strip_model_relative_path_join [of mgmt_models "''gwf2''" "''.''" "''x''" "[]" "''models/gwf1/a.txt''"]
    by simp
qed

text \<open>
  C7. For a model with a registered non-trivial relative path and a path that does not
  lie under it, \<open>strip_model_relative_path\<close> returns without raising, emits one warning
  and returns \<open>Path(path).as_posix()\<close>: the input path in canonical forward-slash form,
  which is the input string itself when that is written as proper segments joined by
  single slashes.
\<close>

theorem strip_model_relative_path_mismatch:
  "dict_get (model_relative_path m) name = Some rel \<and> \<not> isabs rel \<and>
   path_str (Path rel) \<noteq> ''.'' \<and> \<not> is_relative_to (Path p) (Path rel) \<longrightarrow>
     strip_model_relative_path m name p = (as_posix (Path p), [CouldNotStrip p]) \<and>
     (p = sep_join ws \<and> ws \<noteq> [] \<and> (\<forall>w \<in> set ws. w \<noteq> [] \<and> w \<noteq> ''.'' \<and> CHR ''/'' \<notin> set w) \<longrightarrow>
        strip_model_relative_path m name p = (p, [CouldNotStrip p]))"
  using as_posix_canonical [of ws]
  by (auto simp: strip_model_relative_path_def relative_to_def Let_def Path_root_isabs
      path_str_Path_not_Nil)

theorem strip_model_relative_path_mismatch_witness:
  "dict_get (model_relative_path mgmt_models) ''gwf1'' = Some ''models/gwf1'' \<and>
   \<not> isabs ''models/gwf1'' \<and> path_str (Path ''models/gwf1'') \<noteq> ''.'' \<and>
   \<not> is_relative_to (Path ''other/x.txt'') (Path ''models/gwf1'') \<and>
   sep_join [''other'', ''x.txt''] = ''other/x.txt'' \<and>
   strip_model_relative_path mgmt_models ''gwf1'' ''other/x.txt''
     = (''other/x.txt'', [CouldNotStrip ''other/x.txt''])"
proof -
  have "dict_get (model_relative_path mgmt_models) ''gwf1'' = Some ''models/gwf1''"
    by (simp add: mgmt_models_def dict_get_def)
  moreover have "\<not> isabs ''models/gwf1''" "path_str (Path ''models/gwf1'') \<noteq> ''.''"
    "\<not> is_relative_to (Path ''other/x.txt'') (Path ''models/gwf1'')"
    by (simp_all add: isabs_def path_str_def Path_def is_relative_to_def)
  ultimately show ?thesis
    using strip_model_relative_path_mismatch [of mgmt_models "''gwf1''" "''models/gwf1''"
        "''other/x.txt''" "[''other'', ''x.txt'']"]
    by auto
qed

theorem strip_model_relative_path_mismatch_counterexample:
  "dict_get (model_relative_path mgmt_models) ''gwf1'' = Some ''models/gwf1'' \<and>
   \<not> is_relative_to (Path ''other//x.txt'') (Path ''models/gwf1'') \<and>
   strip_model_relative_path mgmt_models ''gwf1'' ''other//x.txt''
     = (''other/x.txt'', [CouldNotStrip ''other//x.txt'']) \<and>
   fst (strip_model_relative_path mgmt_models ''gwf1'' ''other//x.txt'') \<noteq> ''other//x.txt''"
  by (simp add: strip_model_relative_path_def mgmt_models_def dict_get_def Path_def
      is_relative_to_def relative_to_def is_absolute_def path_str_def as_posix_def)

section \<open>The package registry\<close>

lemma lower_wel: "lower ''wel'' = ''wel''" "lower ''WEL'' = ''wel''"
  by (simp_all add: lower_def lower_char_def)

lemma lower_names: "lower ''WEL-1'' = ''wel-1''" "lower ''WEL-2'' = ''wel-2''"
  "lower ''WEL-B'' = ''wel-b''" "lower ''gwf1.wel'' = ''gwf1.wel''"
  "lower ''gwf1_b.wel'' = ''gwf1_b.wel''"
  by (simp_all add: lower_def lower_char_def)

text \<open>
  C2. Adding a package of type \<open>wel\<close> and then one of type \<open>WEL\<close> to an empty
  container: both are in the package list, but the bucket \<open>wel\<close> of the type index
  holds the second only, because the membership test on the type as given (\<open>WEL\<close>)
  fails and the bucket is reset to the empty list.
\<close>

theorem add_package_case_resets_bucket:
  "map_sum id (\<lambda>c. (packagelist c, package_type_dict c))
     (add_packages (empty_container :: unit PackageContainer) [wel_1, wel_upper])
   = Inr ([wel_1, wel_upper], [(''wel'', [wel_upper])])"
  by (simp add: add_package_def empty_container_def wel_1_def wel_upper_def
      dict_in_def dict_get_def lower_wel lower_names)

text \<open>
  C3. Renaming the package at path \<open>(gwf1, wel, WEL-1)\<close> to \<open>WEL-2\<close>: the key
  \<open>(gwf1, wel, WEL-1, period, 1)\<close> is re-keyed with its value, but the slice
  \<open>key[len(package.path) - 1:]\<close> starts at the identity component, so the new key is
  \<open>(gwf1, wel, WEL-2, WEL-1, period, 1)\<close>: the old name stays in it.
\<close>

theorem rename_package_keeps_old_name:
  "map_sum id mfdata (rename_package wel_store wel_1 ''WEL-2'')
   = Inr [([Name ''gwf1'', Name ''riv'', Name ''RIV-1'', Name ''period'', Num 1], ''stages''),
          ([Name ''gwf1'', Name ''wel'', Name ''WEL-2'', Name ''WEL-1'', Name ''period'', Num 1],
           ''rates'')]"
  by (simp add: rename_package_def wel_store_def wel_1_def rekey_def slice_from_def
      is_subkey_def dict_in_def dict_get_def dict_del_def lower_names)

lemma subkey_loop_zip:
  "subkey_loop (zip a b) = (take (min (length a) (length b)) a = take (min (length a) (length b)) b)"
proof (induction a arbitrary: b)
  case Nil
  then show ?case by simp
next
  case (Cons x a)
  then show ?case by (cases b) auto
qed

lemma is_subkey_prefix_equal: "is_subkey a b = prefix_equal a b"
  by (simp add: is_subkey_def prefix_equal_def subkey_loop_zip)

lemma prefix_equal_nth:
  "prefix_equal a b = (\<forall>i. i < length a \<and> i < length b \<longrightarrow> a ! i = b ! i)"
  by (auto simp: prefix_equal_def list_eq_iff_nth_eq)

lemma fold_dict_del: "fold dict_del ks d = filter (\<lambda>e. fst e \<notin> set ks) d"
proof (induction ks arbitrary: d)
  case Nil
  then show ?case by simp
next
  case (Cons k ks)
  then show ?case by (simp add: dict_del_def conj_commute)
qed

lemma mfdata_remove_package:
  "mfdata (remove_package c p) = filter (\<lambda>e. \<not> is_subkey (path p) (fst e)) (mfdata c)"
proof -
  have "mfdata (remove_package c p)
      = fold dict_del (filter (is_subkey (path p)) (map fst (mfdata c))) (mfdata c)"
    by (simp add: remove_package_def Let_def split: option.split)
  also have "\<dots> = filter (\<lambda>e. \<not> is_subkey (path p) (fst e)) (mfdata c)"
    unfolding fold_dict_del by (rule filter_cong) auto
  finally show ?thesis .
qed

lemma map_of_filter_key:
  "map_of (filter (\<lambda>e. P (fst e)) d) k = (if P k then map_of d k else None)"
  by (induction d) auto

lemma dict_in_map_of: "dict_in k d = (map_of d k \<noteq> None)"
  by (simp add: dict_in_def map_of_eq_None_iff)

text \<open>
  C5. \<open>remove_package\<close> leaves in the data store exactly the entries whose key is not
  prefix-equal to \<open>package.path\<close> (positional equality over the shorter of the two
  sequences), in their order and with their values: a key that differs from the path
  at some position both have is present afterwards iff it was before, with the same
  value; every other key is absent afterwards.
\<close>

theorem remove_package_store:
  "mfdata (remove_package c p) = filter (\<lambda>e. \<not> prefix_equal (path p) (fst e)) (mfdata c) \<and>
   dict_get (mfdata (remove_package c p)) k =
     (if prefix_equal (path p) k then None else dict_get (mfdata c) k) \<and>
   ((\<exists>i. i < length (path p) \<and> i < length k \<and> path p ! i \<noteq> k ! i) \<longrightarrow>
      dict_in k (mfdata (remove_package c p)) = dict_in k (mfdata c) \<and>
      dict_get (mfdata (remove_package c p)) k = dict_get (mfdata c) k) \<and>
   (\<not> (\<exists>i. i < length (path p) \<and> i < length k \<and> path p ! i \<noteq> k ! i) \<longrightarrow>
      \<not> dict_in k (mfdata (remove_package c p)))"
proof -
  have store: "mfdata (remove_package c p) = filter (\<lambda>e. \<not> prefix_equal (path p) (fst e)) (mfdata c)"
    by (simp add: mfdata_remove_package is_subkey_prefix_equal)
  have get: "dict_get (mfdata (remove_package c p)) k =
      (if prefix_equal (path p) k then None else dict_get (mfdata c) k)"
    unfolding store dict_get_def
    using map_of_filter_key [of "\<lambda>k. \<not> prefix_equal (path p) k" "mfdata c" k] by simp
  have differs: "(\<exists>i. i < length (path p) \<and> i < length k \<and> path p ! i \<noteq> k ! i) = (\<not> prefix_equal (path p) k)"
    by (auto simp: prefix_equal_nth)
  show ?thesis
    unfolding differs using store get by (simp add: dict_in_map_of dict_get_def)
qed

theorem remove_package_store_witness:
  "(\<exists>i. i < length (path wel_1) \<and>
        i < length [Name ''gwf1'', Name ''riv'', Name ''RIV-1'', Name ''period'', Num 1] \<and>
        path wel_1 ! i \<noteq> [Name ''gwf1'', Name ''riv'', Name ''RIV-1'', Name ''period'', Num 1] ! i) \<and>
   dict_get (mfdata (remove_package wel_store wel_1))
     [Name ''gwf1'', Name ''riv'', Name ''RIV-1'', Name ''period'', Num 1] = Some ''stages'' \<and>
   \<not> (\<exists>i. i < length (path wel_1) \<and>
        i < length [Name ''gwf1'', Name ''wel'', Name ''WEL-1'', Name ''period'', Num 1] \<and>
        path wel_1 ! i \<noteq> [Name ''gwf1'', Name ''wel'', Name ''WEL-1'', Name ''period'', Num 1] ! i) \<and>
   \<not> dict_in [Name ''gwf1'', Name ''wel'', Name ''WEL-1'', Name ''period'', Num 1]
       (mfdata (remove_package wel_store wel_1)) \<and>
   mfdata (remove_package wel_store wel_1) =
     [([Name ''gwf1'', Name ''riv'', Name ''RIV-1'', Name ''period'', Num 1], ''stages'')]"
proof -
  have differs: "\<exists>i. i < length (path wel_1) \<and>
        i < length [Name ''gwf1'', Name ''riv'', Name ''RIV-1'', Name ''period'', Num 1] \<and>
        path wel_1 ! i \<noteq> [Name ''gwf1'', Name ''riv'', Name ''RIV-1'', Name ''period'', Num 1] ! i"
    by (rule exI [of _ 1]) (simp add: wel_1_def)
  have agrees: "\<not> (\<exists>i. i < length (path wel_1) \<and>
        i < length [Name ''gwf1'', Name ''wel'', Name ''WEL-1'', Name ''period'', Num 1] \<and>
        path wel_1 ! i \<noteq> [Name ''gwf1'', Name ''wel'', Name ''WEL-1'', Name ''period'', Num 1] ! i)"
  proof -
    have "prefix_equal (path wel_1)
        [Name ''gwf1'', Name ''wel'', Name ''WEL-1'', Name ''period'', Num 1]"
      by (simp add: prefix_equal_def wel_1_def)
    then show ?thesis
      unfolding prefix_equal_nth by blast
  qed
  show ?thesis
    using differs agrees
      remove_package_store [of wel_store wel_1
        "[Name ''gwf1'', Name ''riv'', Name ''RIV-1'', Name ''period'', Num 1]"]
      remove_package_store [of wel_store wel_1
        "[Name ''gwf1'', Name ''wel'', Name ''WEL-1'', Name ''period'', Num 1]"]
    by (simp add: wel_store_def wel_1_def prefix_equal_def dict_get_def)
qed

section \<open>Matching against a rule set\<close>

lemma split_on_first: "\<exists>rest. split_on sep s = takeWhile (\<lambda>c. c \<noteq> sep) s # rest"
  by (induction s) auto

lemma lower_gwf: "lower ''gwf6'' = ''gwf6''" "lower ''wel-1'' = ''wel-1''"
  by (simp_all add: lower_def lower_char_def)

text \<open>
  C9. \<open>_in_pkg_list\<close> tolerates a version digit at the end of the query's type code:
  with the rule set \<open>{gwf}\<close> the query \<open>gwf6\<close>, \<open>wel-1\<close> matches, with the rule set
  \<open>{riv}\<close> the query \<open>gwf6\<close>, \<open>wel\<close> does not. When neither the lower-cased type code
  nor the lower-cased name is a key of the rule set and the first hyphen-separated
  segment of the type code ends in a character that is not a digit, the result is
  \<open>False\<close> whatever the keys are.
\<close>

theorem in_pkg_list_digit_tolerance:
  "in_pkg_list [(''gwf'', True)] (Some ''gwf6'') (Some ''wel-1'') = Inr True \<and>
   in_pkg_list [(''riv'', True)] (Some ''gwf6'') (Some ''wel'') = Inr False \<and>
   (\<not> dict_in (lower t) pkg_list \<and> \<not> opt_in (map_option lower n) pkg_list \<and>
    takeWhile (\<lambda>c. c \<noteq> CHR ''-'') (lower t) \<noteq> [] \<and>
    \<not> is_digit (last (takeWhile (\<lambda>c. c \<noteq> CHR ''-'') (lower t)))
    \<longrightarrow> in_pkg_list pkg_list (Some t) n = Inr False)"
proof -
  have a: "in_pkg_list [(''gwf'', True)] (Some ''gwf6'') (Some ''wel-1'') = Inr True"
    by (simp add: in_pkg_list_def opt_in_def dict_in_def lower_gwf lower_wel is_digit_def)
  have b: "in_pkg_list [(''riv'', True)] (Some ''gwf6'') (Some ''wel'') = Inr False"
    by (simp add: in_pkg_list_def opt_in_def dict_in_def lower_gwf lower_wel is_digit_def)
  have c: "in_pkg_list pkg_list (Some t) n = Inr False"
    if "\<not> dict_in (lower t) pkg_list" "\<not> opt_in (map_option lower n) pkg_list"
      "takeWhile (\<lambda>c. c \<noteq> CHR ''-'') (lower t) \<noteq> []"
      "\<not> is_digit (last (takeWhile (\<lambda>c. c \<noteq> CHR ''-'') (lower t)))"
  proof -
    obtain rest where "split_on CHR ''-'' (lower t) = takeWhile (\<lambda>c. c \<noteq> CHR ''-'') (lower t) # rest"
      using split_on_first by blast
    with that show ?thesis
      by (simp add: in_pkg_list_def opt_in_def)
  qed
  from a b c show ?thesis by blast
qed

theorem in_pkg_list_digit_tolerance_witness:
  "\<not> dict_in (lower ''WEL'') [(''gwf'', True)] \<and>
   \<not> opt_in (map_option lower (Some ''wel-1'')) [(''gwf'', True)] \<and>
   takeWhile (\<lambda>c. c \<noteq> CHR ''-'') (lower ''WEL'') \<noteq> [] \<and>
   \<not> is_digit (last (takeWhile (\<lambda>c. c \<noteq> CHR ''-'') (lower ''WEL''))) \<and>
   in_pkg_list [(''gwf'', True)] (Some ''WEL'') (Some ''wel-1'') = Inr False"
  using in_pkg_list_digit_tolerance [of "''WEL''" "[(''gwf'', True)]" "Some ''wel-1''"]
  by (simp add: dict_in_def opt_in_def lower_wel lower_gwf is_digit_def)

section \<open>Unique file names\<close>

lemma digit_val_char: "d < 10 \<Longrightarrow> digit_val (digit_char d) = d"
proof -
  assume "d < 10"
  then have "d \<in> set [0..<10]" by simp
  then have "d \<in> {0, 1, 2, 3, 4, 5, 6, 7, 8, 9}"
    by (simp add: upt_rec [of 0] upt_rec [of "Suc _"] numeral_eq_Suc) 
  then show ?thesis
    by (auto simp: digit_val_def digit_char_def)
qed

lemma nat_of_str_nat: "nat_of_str (str_nat n) = n"
proof (induction n rule: str_nat.induct)
  case (1 n)
  show ?case
  proof (cases "n < 10")
    case True
    then show ?thesis
      by (subst str_nat.simps) (simp add: nat_of_str_def digit_val_char)
  next
    case False
    then have "nat_of_str (str_nat (n div 10)) = n div 10" using 1 by simp
    with False show ?thesis
      by (subst str_nat.simps) (simp add: nat_of_str_def digit_val_char)
  qed
qed

lemma str_nat_inj: "str_nat n = str_nat m \<Longrightarrow> n = m"
  by (metis nat_of_str_nat)

lemma splitext_append: "fst (splitext p) @ snd (splitext p) = p"
  by (simp add: splitext_def Let_def)

lemma build_file_eq:
  "build_file f n = fst (splitext f) @ ''_'' @ str_nat n @ snd (splitext f)"
  by (simp add: build_file_def split: prod.split)

lemma build_file_inj: "build_file f n = build_file f m \<Longrightarrow> n = m"
  by (simp add: build_file_eq str_nat_inj)

lemma unique_loop_reaches:
  "k \<le> n \<Longrightarrow> (\<forall>m. k \<le> m \<and> m < n \<longrightarrow> build_file f m \<in> L) \<Longrightarrow> build_file f n \<notin> L
   \<Longrightarrow> unique_loop f L k = Some (build_file f n)"
proof (induction "n - k" arbitrary: k)
  case 0
  then have "k = n" by simp
  with 0 show ?case by (subst unique_loop.simps) simp
next
  case (Suc d)
  then have "k < n" by simp
  with Suc.prems have "build_file f k \<in> L" by simp
  moreover have "unique_loop f L (k + 1) = Some (build_file f n)"
    using Suc.hyps(1) [of "k + 1"] Suc.hyps(2) Suc.prems \<open>k < n\<close> by simp
  ultimately show ?case by (subst unique_loop.simps) simp
qed

lemma free_name_exists: "finite L \<Longrightarrow> \<exists>n. build_file f n \<notin> L"
proof (rule ccontr)
  assume fin: "finite L" and "\<not> (\<exists>n. build_file f n \<notin> L)"
  then have "range (build_file f) \<subseteq> L" by auto
  with fin have "finite (range (build_file f))" by (rule rev_finite_subset)
  moreover have "inj (build_file f)" by (auto simp: inj_on_def dest: build_file_inj)
  ultimately have "finite (UNIV :: nat set)" by (rule finite_imageD)
  then show False by simp
qed

text \<open>
  C10. For a finite lookup, \<open>unique_file_name\<close> returns: the result is the file name
  with \<open>_n\<close> between its root and its extension as \<open>os.path.splitext\<close> splits it (at
  the end of the name when the extension is empty), that name is not in the lookup,
  and \<open>n\<close> is the least such number, every smaller one giving a name in the lookup.
\<close>

theorem unique_file_name_least:
  "finite lookup \<Longrightarrow>
   \<exists>n. unique_file_name f lookup = Some (fst (splitext f) @ ''_'' @ str_nat n @ snd (splitext f)) \<and>
       fst (splitext f) @ snd (splitext f) = f \<and>
       fst (splitext f) @ ''_'' @ str_nat n @ snd (splitext f) \<notin> lookup \<and>
       (\<forall>m<n. fst (splitext f) @ ''_'' @ str_nat m @ snd (splitext f) \<in> lookup)"
proof -
  assume "finite lookup"
  then obtain n0 where n0: "build_file f n0 \<notin> lookup" using free_name_exists by blast
  define n where "n = (LEAST n. build_file f n \<notin> lookup)"
  have free: "build_file f n \<notin> lookup" unfolding n_def using n0 by (rule LeastI)
  have below: "build_file f m \<in> lookup" if "m < n" for m
    using that not_less_Least unfolding n_def by blast
  have "unique_file_name f lookup = Some (build_file f n)"
    unfolding unique_file_name_def using free below by (intro unique_loop_reaches) auto
  with free below show ?thesis
    unfolding build_file_eq using splitext_append by blast
qed


theorem unique_file_name_least_witness:
  "finite {''model_0.txt'', ''model_1.txt'', ''model_3.txt''} \<and>
   (\<exists>n. unique_file_name ''model.txt'' {''model_0.txt'', ''model_1.txt'', ''model_3.txt''}
          = Some (fst (splitext ''model.txt'') @ ''_'' @ str_nat n @ snd (splitext ''model.txt'')) \<and>
        fst (splitext ''model.txt'') @ snd (splitext ''model.txt'') = ''model.txt'' \<and>
        fst (splitext ''model.txt'') @ ''_'' @ str_nat n @ snd (splitext ''model.txt'')
          \<notin> {''model_0.txt'', ''model_1.txt'', ''model_3.txt''} \<and>
        (\<forall>m<n. fst (splitext ''model.txt'') @ ''_'' @ str_nat m @ snd (splitext ''model.txt'')
          \<in> {''model_0.txt'', ''model_1.txt'', ''model_3.txt''})) \<and>
   unique_file_name ''model.txt'' {''model_0.txt'', ''model_1.txt'', ''model_3.txt''}
     = Some ''model_2.txt'' \<and>
   unique_file_name ''run/model'' {''run/model_0''} = Some ''run/model_1''"
proof -
  have fin: "finite {''model_0.txt'', ''model_1.txt'', ''model_3.txt''}" by simp
  have ev1: "unique_file_name ''model.txt'' {''model_0.txt'', ''model_1.txt'', ''model_3.txt''}
      = Some ''model_2.txt''"
    by (simp add: unique_file_name_def unique_loop.simps build_file_def splitext_def rfind_def
        str_nat.simps digit_char_def)
  have ev2: "unique_file_name ''run/model'' {''run/model_0''} = Some ''run/model_1''"
    by (simp add: unique_file_name_def unique_loop.simps build_file_def splitext_def rfind_def
        str_nat.simps digit_char_def)
  from fin ev1 ev2 unique_file_name_least [OF fin, of "''model.txt''"] show ?thesis
    by blast
qed

end
